theory Spec2Isabelle
  imports Main
begin

section \<open>Webhook events of package scm (webhook.go)\<close>

text \<open>
  The file declares nine event structs, the interface \<open>Webhook\<close> they implement through
  pointer receivers, and the wrapper \<open>WebhookUnmarshaler\<close> with its two methods
  \<open>MarshalJSON\<close> and \<open>UnmarshalJSON\<close>.

  The types \<open>Repository\<close>, \<open>Commit\<close>, \<open>User\<close>, \<open>Reference\<close>, \<open>Action\<close>, \<open>Issue\<close>,
  \<open>Comment\<close>, \<open>PullRequest\<close> and \<open>Review\<close> are declared in other files of the package.
  They are type parameters here (\<open>'repo\<close>, \<open>'commit\<close>, \<open>'user\<close>, \<open>'ref\<close>, \<open>'action\<close>,
  \<open>'issue\<close>, \<open>'comment\<close>, \<open>'pr\<close>, \<open>'review\<close>), and so is the dynamic content of the
  \<open>interface{}\<close> field \<open>DeployHook.Data\<close> (\<open>'data\<close>). A Go slice is a list, a Go string and
  a Go byte slice are a \<open>string\<close> (a list of 8-bit characters).
\<close>

type_synonym bytes = string

subsection \<open>The structs (lines 33 to 159)\<close>

record Label =
  URL :: string
  Name :: string
  Description :: string
  Color :: string

record PushCommit =
  ID :: string
  Message :: string
  Added :: "string list"
  Removed :: "string list"
  Modified :: "string list"

record ('repo, 'commit, 'user) PushHook =
  Ref :: string
  BaseRef :: string
  Repo :: 'repo
  Before :: string
  After :: string
  Created :: bool
  Deleted :: bool
  Forced :: bool
  Compare :: string
  Commits :: "PushCommit list"
  Commit :: 'commit
  Sender :: 'user
  GUID :: string

record ('ref, 'repo, 'action, 'user) BranchHook =
  Ref :: 'ref
  Repo :: 'repo
  Action :: 'action
  Sender :: 'user

record ('ref, 'repo, 'action, 'user) TagHook =
  Ref :: 'ref
  Repo :: 'repo
  Action :: 'action
  Sender :: 'user

record ('action, 'repo, 'issue, 'user) IssueHook =
  Action :: 'action
  Repo :: 'repo
  Issue :: 'issue
  Sender :: 'user

record ('action, 'repo, 'issue, 'comment, 'user) IssueCommentHook =
  Action :: 'action
  Repo :: 'repo
  Issue :: 'issue
  Comment :: 'comment
  Sender :: 'user

record PullRequestHookBranchFrom =
  From :: string

record 'repo PullRequestHookBranch =
  Ref :: PullRequestHookBranchFrom
  Sha :: PullRequestHookBranchFrom
  Repo :: 'repo

record 'repo PullRequestHookChanges =
  Base :: "'repo PullRequestHookBranch"

record ('action, 'repo, 'pr, 'user) PullRequestHook =
  Action :: 'action
  Repo :: 'repo
  Label :: Label
  PullRequest :: 'pr
  Sender :: 'user
  Changes :: "'repo PullRequestHookChanges"
  GUID :: string

record ('action, 'repo, 'pr, 'comment, 'user) PullRequestCommentHook =
  Action :: 'action
  Repo :: 'repo
  PullRequest :: 'pr
  Comment :: 'comment
  Sender :: 'user

record ('action, 'repo, 'pr, 'review) ReviewCommentHook =
  Action :: 'action
  Repo :: 'repo
  PullRequest :: 'pr
  Review :: 'review

record ('data, 'ref, 'repo, 'user) DeployHook =
  Data :: 'data
  Desc :: string
  Ref :: 'ref
  Repo :: 'repo
  Sender :: 'user
  Target :: string
  TargetURL :: string
  Task :: string

subsection \<open>Panics and results\<close>

text \<open>
  A Go call either returns or panics. Reading a field through a nil pointer, and loading
  the value a nil pointer points to, is the run-time panic "invalid memory address or nil
  pointer dereference".
\<close>

datatype panic = NilPointerDereference

datatype 'a result = Panicked panic | Returned 'a

subsection \<open>The methods \<open>Repository()\<close> (lines 177 to 185)\<close>

text \<open>
  Each method has a pointer receiver \<open>h *T\<close> and the body \<open>return h.Repo\<close>. A pointer
  is an \<open>option\<close>: \<open>None\<close> is the nil pointer, \<open>Some s\<close> points to the struct \<open>s\<close>. A
  method with a pointer receiver may write to the struct it points to, so each model
  returns the result together with the receiver as it is after the call.
\<close>

definition PushHook_Repository ::
  "('repo, 'commit, 'user) PushHook option
    \<Rightarrow> 'repo result \<times> ('repo, 'commit, 'user) PushHook option" where
  "PushHook_Repository h =
     (case h of None \<Rightarrow> (Panicked NilPointerDereference, h)
      | Some s \<Rightarrow> (Returned (PushHook.Repo s), h))"

definition BranchHook_Repository ::
  "('ref, 'repo, 'action, 'user) BranchHook option
    \<Rightarrow> 'repo result \<times> ('ref, 'repo, 'action, 'user) BranchHook option" where
  "BranchHook_Repository h =
     (case h of None \<Rightarrow> (Panicked NilPointerDereference, h)
      | Some s \<Rightarrow> (Returned (BranchHook.Repo s), h))"

definition DeployHook_Repository ::
  "('data, 'ref, 'repo, 'user) DeployHook option
    \<Rightarrow> 'repo result \<times> ('data, 'ref, 'repo, 'user) DeployHook option" where
  "DeployHook_Repository h =
     (case h of None \<Rightarrow> (Panicked NilPointerDereference, h)
      | Some s \<Rightarrow> (Returned (DeployHook.Repo s), h))"

definition TagHook_Repository ::
  "('ref, 'repo, 'action, 'user) TagHook option
    \<Rightarrow> 'repo result \<times> ('ref, 'repo, 'action, 'user) TagHook option" where
  "TagHook_Repository h =
     (case h of None \<Rightarrow> (Panicked NilPointerDereference, h)
      | Some s \<Rightarrow> (Returned (TagHook.Repo s), h))"

definition IssueHook_Repository ::
  "('action, 'repo, 'issue, 'user) IssueHook option
    \<Rightarrow> 'repo result \<times> ('action, 'repo, 'issue, 'user) IssueHook option" where
  "IssueHook_Repository h =
     (case h of None \<Rightarrow> (Panicked NilPointerDereference, h)
      | Some s \<Rightarrow> (Returned (IssueHook.Repo s), h))"

definition IssueCommentHook_Repository ::
  "('action, 'repo, 'issue, 'comment, 'user) IssueCommentHook option
    \<Rightarrow> 'repo result \<times> ('action, 'repo, 'issue, 'comment, 'user) IssueCommentHook option" where
  "IssueCommentHook_Repository h =
     (case h of None \<Rightarrow> (Panicked NilPointerDereference, h)
      | Some s \<Rightarrow> (Returned (IssueCommentHook.Repo s), h))"

definition PullRequestHook_Repository ::
  "('action, 'repo, 'pr, 'user) PullRequestHook option
    \<Rightarrow> 'repo result \<times> ('action, 'repo, 'pr, 'user) PullRequestHook option" where
  "PullRequestHook_Repository h =
     (case h of None \<Rightarrow> (Panicked NilPointerDereference, h)
      | Some s \<Rightarrow> (Returned (PullRequestHook.Repo s), h))"

definition PullRequestCommentHook_Repository ::
  "('action, 'repo, 'pr, 'comment, 'user) PullRequestCommentHook option
    \<Rightarrow> 'repo result \<times> ('action, 'repo, 'pr, 'comment, 'user) PullRequestCommentHook option" where
  "PullRequestCommentHook_Repository h =
     (case h of None \<Rightarrow> (Panicked NilPointerDereference, h)
      | Some s \<Rightarrow> (Returned (PullRequestCommentHook.Repo s), h))"

definition ReviewCommentHook_Repository ::
  "('action, 'repo, 'pr, 'review) ReviewCommentHook option
    \<Rightarrow> 'repo result \<times> ('action, 'repo, 'pr, 'review) ReviewCommentHook option" where
  "ReviewCommentHook_Repository h =
     (case h of None \<Rightarrow> (Panicked NilPointerDereference, h)
      | Some s \<Rightarrow> (Returned (ReviewCommentHook.Repo s), h))"

subsection \<open>Interface values (lines 22 to 31)\<close>

text \<open>
  A value of the interface type \<open>Webhook\<close> is nil or holds a value whose type has the
  method \<open>Repository() Repository\<close> in its method set. The nine methods of lines 177 to 185
  have pointer receivers, so the types of this file that implement \<open>Webhook\<close> are the nine
  pointer types \<open>*PushHook\<close>, ..., \<open>*ReviewCommentHook\<close>; the struct types themselves do
  not implement it (the method set of a struct type holds the methods with a value receiver
  only). \<open>OtherWebhook\<close> stands for a value of any type declared elsewhere that implements
  the interface. The nil interface value is \<open>None\<close>; a non-nil interface value holding a nil
  pointer is \<open>Some (PushHookPtr None)\<close>.
\<close>

datatype ('repo, 'commit, 'user, 'ref, 'action, 'issue, 'comment, 'pr, 'review, 'data, 'other)
  Webhook =
    PushHookPtr "('repo, 'commit, 'user) PushHook option"
  | BranchHookPtr "('ref, 'repo, 'action, 'user) BranchHook option"
  | DeployHookPtr "('data, 'ref, 'repo, 'user) DeployHook option"
  | TagHookPtr "('ref, 'repo, 'action, 'user) TagHook option"
  | IssueHookPtr "('action, 'repo, 'issue, 'user) IssueHook option"
  | IssueCommentHookPtr "('action, 'repo, 'issue, 'comment, 'user) IssueCommentHook option"
  | PullRequestHookPtr "('action, 'repo, 'pr, 'user) PullRequestHook option"
  | PullRequestCommentHookPtr "('action, 'repo, 'pr, 'comment, 'user) PullRequestCommentHook option"
  | ReviewCommentHookPtr "('action, 'repo, 'pr, 'review) ReviewCommentHook option"
  | OtherWebhook 'other

text \<open>
  A value of the empty interface \<open>interface{}\<close> is nil (\<open>None\<close>) or holds a value of a
  dynamic type. The dynamic types that occur in this file are the nine struct types (the
  targets of the type assertions of \<open>MarshalJSON\<close>), the types that implement \<open>Webhook\<close>,
  and \<open>string\<close>.
\<close>

datatype ('repo, 'commit, 'user, 'ref, 'action, 'issue, 'comment, 'pr, 'review, 'data, 'other)
  dynamic =
    Val_PushHook "('repo, 'commit, 'user) PushHook"
  | Val_BranchHook "('ref, 'repo, 'action, 'user) BranchHook"
  | Val_DeployHook "('data, 'ref, 'repo, 'user) DeployHook"
  | Val_TagHook "('ref, 'repo, 'action, 'user) TagHook"
  | Val_IssueHook "('action, 'repo, 'issue, 'user) IssueHook"
  | Val_IssueCommentHook "('action, 'repo, 'issue, 'comment, 'user) IssueCommentHook"
  | Val_PullRequestHook "('action, 'repo, 'pr, 'user) PullRequestHook"
  | Val_PullRequestCommentHook "('action, 'repo, 'pr, 'comment, 'user) PullRequestCommentHook"
  | Val_ReviewCommentHook "('action, 'repo, 'pr, 'review) ReviewCommentHook"
  | Val_Webhook "('repo, 'commit, 'user, 'ref, 'action, 'issue, 'comment, 'pr, 'review, 'data, 'other) Webhook"
  | Val_string string

record ('repo, 'commit, 'user, 'ref, 'action, 'issue, 'comment, 'pr, 'review, 'data, 'other)
  WebhookUnmarshaler =
  Type :: string
  Webhook :: "('repo, 'commit, 'user, 'ref, 'action, 'issue, 'comment, 'pr, 'review, 'data, 'other) Webhook option"

text \<open>
  The assignment \<open>genericWebhook = wu.Webhook\<close> converts a \<open>Webhook\<close> to an
  \<open>interface{}\<close>: nil stays nil, and the dynamic type and value are kept.
\<close>

definition to_dynamic ::
  "('repo, 'commit, 'user, 'ref, 'action, 'issue, 'comment, 'pr, 'review, 'data, 'other) Webhook option
    \<Rightarrow> ('repo, 'commit, 'user, 'ref, 'action, 'issue, 'comment, 'pr, 'review, 'data, 'other) dynamic option" where
  "to_dynamic w = (case w of None \<Rightarrow> None | Some v \<Rightarrow> Some (Val_Webhook v))"

text \<open>
  The type assertion \<open>_, ok := x.(T)\<close> to a struct type \<open>T\<close>: \<open>ok\<close> is true exactly
  when the dynamic type of \<open>x\<close> is \<open>T\<close> itself.
\<close>

definition assert_PushHook ::
  "('repo, 'commit, 'user, 'ref, 'action, 'issue, 'comment, 'pr, 'review, 'data, 'other) dynamic option \<Rightarrow> bool" where
  "assert_PushHook x = (case x of Some (Val_PushHook v) \<Rightarrow> True | _ \<Rightarrow> False)"

definition assert_BranchHook ::
  "('repo, 'commit, 'user, 'ref, 'action, 'issue, 'comment, 'pr, 'review, 'data, 'other) dynamic option \<Rightarrow> bool" where
  "assert_BranchHook x = (case x of Some (Val_BranchHook v) \<Rightarrow> True | _ \<Rightarrow> False)"

definition assert_DeployHook ::
  "('repo, 'commit, 'user, 'ref, 'action, 'issue, 'comment, 'pr, 'review, 'data, 'other) dynamic option \<Rightarrow> bool" where
  "assert_DeployHook x = (case x of Some (Val_DeployHook v) \<Rightarrow> True | _ \<Rightarrow> False)"

definition assert_TagHook ::
  "('repo, 'commit, 'user, 'ref, 'action, 'issue, 'comment, 'pr, 'review, 'data, 'other) dynamic option \<Rightarrow> bool" where
  "assert_TagHook x = (case x of Some (Val_TagHook v) \<Rightarrow> True | _ \<Rightarrow> False)"

definition assert_IssueHook ::
  "('repo, 'commit, 'user, 'ref, 'action, 'issue, 'comment, 'pr, 'review, 'data, 'other) dynamic option \<Rightarrow> bool" where
  "assert_IssueHook x = (case x of Some (Val_IssueHook v) \<Rightarrow> True | _ \<Rightarrow> False)"

definition assert_IssueCommentHook ::
  "('repo, 'commit, 'user, 'ref, 'action, 'issue, 'comment, 'pr, 'review, 'data, 'other) dynamic option \<Rightarrow> bool" where
  "assert_IssueCommentHook x = (case x of Some (Val_IssueCommentHook v) \<Rightarrow> True | _ \<Rightarrow> False)"

definition assert_PullRequestHook ::
  "('repo, 'commit, 'user, 'ref, 'action, 'issue, 'comment, 'pr, 'review, 'data, 'other) dynamic option \<Rightarrow> bool" where
  "assert_PullRequestHook x = (case x of Some (Val_PullRequestHook v) \<Rightarrow> True | _ \<Rightarrow> False)"

definition assert_PullRequestCommentHook ::
  "('repo, 'commit, 'user, 'ref, 'action, 'issue, 'comment, 'pr, 'review, 'data, 'other) dynamic option \<Rightarrow> bool" where
  "assert_PullRequestCommentHook x = (case x of Some (Val_PullRequestCommentHook v) \<Rightarrow> True | _ \<Rightarrow> False)"

definition assert_ReviewCommentHook ::
  "('repo, 'commit, 'user, 'ref, 'action, 'issue, 'comment, 'pr, 'review, 'data, 'other) dynamic option \<Rightarrow> bool" where
  "assert_ReviewCommentHook x = (case x of Some (Val_ReviewCommentHook v) \<Rightarrow> True | _ \<Rightarrow> False)"

subsection \<open>Errors\<close>

text \<open>
  \<open>Errorf\<close> is an error made by \<open>fmt.Errorf\<close> with the given message; \<open>JSONError\<close> is an
  error returned by package \<open>encoding/json\<close>.
\<close>

datatype error = Errorf string | JSONError string

subsection \<open>\<open>MarshalJSON\<close> (lines 188 to 250)\<close>

text \<open>
  \<open>json.Marshal\<close> of the standard library is the parameter \<open>json_Marshal\<close>: it takes the
  \<open>map[string]interface{}\<close> and returns the bytes or an error. The method has a pointer
  receiver, so the model returns the receiver as it is after the call.
\<close>

definition MarshalJSON ::
  "((string \<rightharpoonup> ('repo, 'commit, 'user, 'ref, 'action, 'issue, 'comment, 'pr, 'review, 'data, 'other) dynamic option) \<Rightarrow> error + bytes)
    \<Rightarrow> ('repo, 'commit, 'user, 'ref, 'action, 'issue, 'comment, 'pr, 'review, 'data, 'other) WebhookUnmarshaler
    \<Rightarrow> (error + bytes) \<times> ('repo, 'commit, 'user, 'ref, 'action, 'issue, 'comment, 'pr, 'review, 'data, 'other) WebhookUnmarshaler" where
  "MarshalJSON json_Marshal wu =
     (let marshaledHook = Map.empty;
          genericWebhook = to_dynamic (Webhook wu)
      in if assert_PushHook genericWebhook then
        (let marshaledHook = marshaledHook(''type'' \<mapsto> Some (Val_string ''pushHook''));
             marshaledHook = marshaledHook(''webhook'' \<mapsto> to_dynamic (Webhook wu))
         in (json_Marshal marshaledHook, wu))
      else if assert_BranchHook genericWebhook then
        (let marshaledHook = marshaledHook(''type'' \<mapsto> Some (Val_string ''branchHook''));
             marshaledHook = marshaledHook(''webhook'' \<mapsto> to_dynamic (Webhook wu))
         in (json_Marshal marshaledHook, wu))
      else if assert_DeployHook genericWebhook then
        (let marshaledHook = marshaledHook(''type'' \<mapsto> Some (Val_string ''deployHook''));
             marshaledHook = marshaledHook(''webhook'' \<mapsto> to_dynamic (Webhook wu))
         in (json_Marshal marshaledHook, wu))
      else if assert_TagHook genericWebhook then
        (let marshaledHook = marshaledHook(''type'' \<mapsto> Some (Val_string ''tagHook''));
             marshaledHook = marshaledHook(''webhook'' \<mapsto> to_dynamic (Webhook wu))
         in (json_Marshal marshaledHook, wu))
      else if assert_IssueHook genericWebhook then
        (let marshaledHook = marshaledHook(''type'' \<mapsto> Some (Val_string ''issueHook''));
             marshaledHook = marshaledHook(''webhook'' \<mapsto> to_dynamic (Webhook wu))
         in (json_Marshal marshaledHook, wu))
      else if assert_IssueCommentHook genericWebhook then
        (let marshaledHook = marshaledHook(''type'' \<mapsto> Some (Val_string ''issueCommentHook''));
             marshaledHook = marshaledHook(''webhook'' \<mapsto> to_dynamic (Webhook wu))
         in (json_Marshal marshaledHook, wu))
      else if assert_PullRequestHook genericWebhook then
        (let marshaledHook = marshaledHook(''type'' \<mapsto> Some (Val_string ''pullRequestHook''));
             marshaledHook = marshaledHook(''webhook'' \<mapsto> to_dynamic (Webhook wu))
         in (json_Marshal marshaledHook, wu))
      else if assert_PullRequestCommentHook genericWebhook then
        (let marshaledHook = marshaledHook(''type'' \<mapsto> Some (Val_string ''pullRequestCommentHook''));
             marshaledHook = marshaledHook(''webhook'' \<mapsto> to_dynamic (Webhook wu))
         in (json_Marshal marshaledHook, wu))
      else if assert_ReviewCommentHook genericWebhook then
        (let marshaledHook = marshaledHook(''type'' \<mapsto> Some (Val_string ''reviewCommentHook''));
             marshaledHook = marshaledHook(''webhook'' \<mapsto> to_dynamic (Webhook wu))
         in (json_Marshal marshaledHook, wu))
      else (Inl (Errorf ''WebhookUnmarshaler.Webhook does not implement a concrete Webhook type''), wu))"

subsection \<open>\<open>UnmarshalJSON\<close> (lines 253 to 351)\<close>

text \<open>
  \<open>json.Unmarshal\<close> of the standard library is called with three kinds of target, each a
  parameter of the model:
  \<^item> \<open>json_Unmarshal_objMap b\<close> is \<open>json.Unmarshal(b, &objMap)\<close> with
    \<open>objMap map[string]*json.RawMessage\<close>: the error, or the map it has stored;
  \<^item> \<open>json_Unmarshal_webhookMap raw\<close> is \<open>json.Unmarshal(raw, &webhookMap)\<close> with
    \<open>webhookMap map[string]string\<close>;
  \<^item> \<open>json_Unmarshal_hook raw h\<close> is \<open>json.Unmarshal(raw, h)\<close> where \<open>h\<close> is the
    pointer declared in a branch. \<open>h\<close> is passed by value, so the call cannot change
    which struct \<open>h\<close> points to; the model keeps its error (\<open>None\<close> is the nil error).
\<close>

text \<open>Indexing a \<open>map[string]string\<close>: a missing key gives the empty string.\<close>

definition index_map :: "(string \<rightharpoonup> string) \<Rightarrow> string \<Rightarrow> string" where
  "index_map m k = (case m k of None \<Rightarrow> '''' | Some v \<Rightarrow> v)"

text \<open>
  The body of one branch of the chain, for the pointer \<open>h\<close> declared there:
  \<^verbatim>\<open>err = json.Unmarshal(*rawMessage, h); if err != nil { return err }; wu.Webhook = h\<close>.
  Evaluating \<open>*rawMessage\<close> panics when \<open>rawMessage\<close> is nil.
\<close>

definition unmarshal_into ::
  "(bytes \<Rightarrow> ('repo, 'commit, 'user, 'ref, 'action, 'issue, 'comment, 'pr, 'review, 'data, 'other) dynamic option \<Rightarrow> error option)
    \<Rightarrow> bytes option
    \<Rightarrow> ('repo, 'commit, 'user, 'ref, 'action, 'issue, 'comment, 'pr, 'review, 'data, 'other) Webhook
    \<Rightarrow> ('repo, 'commit, 'user, 'ref, 'action, 'issue, 'comment, 'pr, 'review, 'data, 'other) WebhookUnmarshaler
    \<Rightarrow> error option result \<times> ('repo, 'commit, 'user, 'ref, 'action, 'issue, 'comment, 'pr, 'review, 'data, 'other) WebhookUnmarshaler" where
  "unmarshal_into json_Unmarshal_hook rawMessage h wu =
     (case rawMessage of
        None \<Rightarrow> (Panicked NilPointerDereference, wu)
      | Some raw \<Rightarrow>
          (case json_Unmarshal_hook raw (Some (Val_Webhook h)) of
             Some err \<Rightarrow> (Returned (Some err), wu)
           | None \<Rightarrow> (Returned None, wu\<lparr>Webhook := Some h\<rparr>)))"

text \<open>
  The chain of lines 267 to 350. Every branch declares \<open>var h *T\<close>, a nil pointer, for
  the type \<open>T\<close> written in the source at that branch.
\<close>

definition UnmarshalJSON_chain ::
  "(bytes \<Rightarrow> ('repo, 'commit, 'user, 'ref, 'action, 'issue, 'comment, 'pr, 'review, 'data, 'other) dynamic option \<Rightarrow> error option)
    \<Rightarrow> (string \<rightharpoonup> string)
    \<Rightarrow> bytes option
    \<Rightarrow> ('repo, 'commit, 'user, 'ref, 'action, 'issue, 'comment, 'pr, 'review, 'data, 'other) WebhookUnmarshaler
    \<Rightarrow> error option result \<times> ('repo, 'commit, 'user, 'ref, 'action, 'issue, 'comment, 'pr, 'review, 'data, 'other) WebhookUnmarshaler" where
  "UnmarshalJSON_chain json_Unmarshal_hook webhookMap rawMessage wu =
     (if index_map webhookMap ''type'' = ''pushHook'' then
        (let h = PushHookPtr None in unmarshal_into json_Unmarshal_hook rawMessage h wu)
      else if index_map webhookMap ''type'' = ''branchHook'' then
        (let h = BranchHookPtr None in unmarshal_into json_Unmarshal_hook rawMessage h wu)
      else if index_map webhookMap ''type'' = ''deployHook'' then
        (let h = DeployHookPtr None in unmarshal_into json_Unmarshal_hook rawMessage h wu)
      else if index_map webhookMap ''type'' = ''tagHook'' then
        (let h = TagHookPtr None in unmarshal_into json_Unmarshal_hook rawMessage h wu)
      else if index_map webhookMap ''type'' = ''issueHook'' then
        (let h = IssueHookPtr None in unmarshal_into json_Unmarshal_hook rawMessage h wu)
      else if index_map webhookMap ''type'' = ''issueCommentHook'' then
        (let h = IssueHookPtr None in unmarshal_into json_Unmarshal_hook rawMessage h wu)
      else if index_map webhookMap ''type'' = ''pullRequestHook'' then
        (let h = IssueHookPtr None in unmarshal_into json_Unmarshal_hook rawMessage h wu)
      else if index_map webhookMap ''type'' = ''pullRequestCommentHook'' then
        (let h = IssueHookPtr None in unmarshal_into json_Unmarshal_hook rawMessage h wu)
      else if index_map webhookMap ''type'' = ''reviewCommentHook'' then
        (let h = IssueHookPtr None in unmarshal_into json_Unmarshal_hook rawMessage h wu)
      else (Returned None, wu))"

text \<open>
  The method. \<open>objMap\<close> is not read after it has been filled. \<open>rawMessage\<close> is declared
  (so it is nil) and never assigned; \<open>*rawMessage\<close> is evaluated as the first argument of
  the second \<open>json.Unmarshal\<close>.
\<close>

definition UnmarshalJSON ::
  "(bytes \<Rightarrow> error + (string \<rightharpoonup> bytes option))
    \<Rightarrow> (bytes \<Rightarrow> error + (string \<rightharpoonup> string))
    \<Rightarrow> (bytes \<Rightarrow> ('repo, 'commit, 'user, 'ref, 'action, 'issue, 'comment, 'pr, 'review, 'data, 'other) dynamic option \<Rightarrow> error option)
    \<Rightarrow> bytes
    \<Rightarrow> ('repo, 'commit, 'user, 'ref, 'action, 'issue, 'comment, 'pr, 'review, 'data, 'other) WebhookUnmarshaler
    \<Rightarrow> error option result \<times> ('repo, 'commit, 'user, 'ref, 'action, 'issue, 'comment, 'pr, 'review, 'data, 'other) WebhookUnmarshaler" where
  "UnmarshalJSON json_Unmarshal_objMap json_Unmarshal_webhookMap json_Unmarshal_hook b wu =
     (case json_Unmarshal_objMap b of
        Inl err \<Rightarrow> (Returned (Some err), wu)
      | Inr objMap \<Rightarrow>
          (let rawMessage = (None :: bytes option)
           in case rawMessage of
                None \<Rightarrow> (Panicked NilPointerDereference, wu)
              | Some raw \<Rightarrow>
                  (case json_Unmarshal_webhookMap raw of
                     Inl err \<Rightarrow> (Returned (Some err), wu)
                   | Inr webhookMap \<Rightarrow>
                       UnmarshalJSON_chain json_Unmarshal_hook webhookMap rawMessage wu)))"

section \<open>Properties\<close>

subsection \<open>Shared facts\<close>

text \<open>
  No type assertion of \<open>MarshalJSON\<close> succeeds on a value converted from a \<open>Webhook\<close>:
  the dynamic type of such a value implements \<open>Webhook\<close>, and none of the nine struct types
  does.
\<close>

lemma assert_to_dynamic:
  "assert_PushHook (to_dynamic w) = False"
  "assert_BranchHook (to_dynamic w) = False"
  "assert_DeployHook (to_dynamic w) = False"
  "assert_TagHook (to_dynamic w) = False"
  "assert_IssueHook (to_dynamic w) = False"
  "assert_IssueCommentHook (to_dynamic w) = False"
  "assert_PullRequestHook (to_dynamic w) = False"
  "assert_PullRequestCommentHook (to_dynamic w) = False"
  "assert_ReviewCommentHook (to_dynamic w) = False"
  by (simp_all add: to_dynamic_def assert_PushHook_def assert_BranchHook_def
      assert_DeployHook_def assert_TagHook_def assert_IssueHook_def
      assert_IssueCommentHook_def assert_PullRequestHook_def
      assert_PullRequestCommentHook_def assert_ReviewCommentHook_def split: option.split)

text \<open>So every call of \<open>MarshalJSON\<close> reaches the last line and returns its error.\<close>

lemma MarshalJSON_unsupported:
  "MarshalJSON json_Marshal wu =
     (Inl (Errorf ''WebhookUnmarshaler.Webhook does not implement a concrete Webhook type''), wu)"
  by (simp add: MarshalJSON_def assert_to_dynamic)

text \<open>
  \<open>UnmarshalJSON\<close> has two outcomes: the error of the first \<open>json.Unmarshal\<close>, or the
  panic of \<open>*rawMessage\<close>. The receiver is not written in either.
\<close>

lemma UnmarshalJSON_outcome:
  "UnmarshalJSON ju jw jh b wu =
     (case ju b of
        Inl err \<Rightarrow> (Returned (Some err), wu)
      | Inr objMap \<Rightarrow> (Panicked NilPointerDereference, wu))"
  by (simp add: UnmarshalJSON_def split: sum.split)

subsection \<open>The event model\<close>

text \<open>
  C7. For a value of each of the nine event structs, \<open>Repository()\<close> called on a pointer to
  it returns the content of its \<open>Repo\<close> field, whatever that content is (the zero value
  included), and leaves the struct as it was.
\<close>

theorem Repository_projects_Repo:
  "PushHook_Repository (Some h1) = (Returned (PushHook.Repo h1), Some h1)
   \<and> BranchHook_Repository (Some h2) = (Returned (BranchHook.Repo h2), Some h2)
   \<and> DeployHook_Repository (Some h3) = (Returned (DeployHook.Repo h3), Some h3)
   \<and> TagHook_Repository (Some h4) = (Returned (TagHook.Repo h4), Some h4)
   \<and> IssueHook_Repository (Some h5) = (Returned (IssueHook.Repo h5), Some h5)
   \<and> IssueCommentHook_Repository (Some h6) = (Returned (IssueCommentHook.Repo h6), Some h6)
   \<and> PullRequestHook_Repository (Some h7) = (Returned (PullRequestHook.Repo h7), Some h7)
   \<and> PullRequestCommentHook_Repository (Some h8)
       = (Returned (PullRequestCommentHook.Repo h8), Some h8)
   \<and> ReviewCommentHook_Repository (Some h9) = (Returned (ReviewCommentHook.Repo h9), Some h9)"
  by (simp add: PushHook_Repository_def BranchHook_Repository_def DeployHook_Repository_def
      TagHook_Repository_def IssueHook_Repository_def IssueCommentHook_Repository_def
      PullRequestHook_Repository_def PullRequestCommentHook_Repository_def
      ReviewCommentHook_Repository_def)

subsection \<open>Encoding\<close>

text \<open>
  C9. \<open>MarshalJSON\<close> leaves both fields of its receiver as they were, on every path, for
  every behaviour of \<open>json.Marshal\<close>.
\<close>

theorem MarshalJSON_receiver_unchanged:
  "snd (MarshalJSON json_Marshal wu) = wu"
  by (simp add: MarshalJSON_def Let_def)

text \<open>
  C10. The result of \<open>MarshalJSON\<close> (bytes or error) does not depend on the \<open>Type\<close>
  field of the receiver: two wrappers with the same \<open>Webhook\<close> field give the same result.
\<close>

theorem MarshalJSON_ignores_Type:
  "fst (MarshalJSON json_Marshal \<lparr>Type = t1, Webhook = w\<rparr>)
     = fst (MarshalJSON json_Marshal \<lparr>Type = t2, Webhook = w\<rparr>)"
  by (simp add: MarshalJSON_def Let_def)

text \<open>
  C4. The claim is that \<open>MarshalJSON\<close> succeeds on the nine event types and fails on the
  others. The code fails on the nine event types too: a \<open>Webhook\<close> holding a pointer to
  any of the nine structs (nil or not) gets the error of line 249, for every \<open>Type\<close>.
\<close>

theorem MarshalJSON_rejects_all_nine:
  "fst (MarshalJSON json_Marshal \<lparr>Type = t, Webhook = Some (PushHookPtr p1)\<rparr>)
     = Inl (Errorf ''WebhookUnmarshaler.Webhook does not implement a concrete Webhook type'')
   \<and> fst (MarshalJSON json_Marshal \<lparr>Type = t, Webhook = Some (BranchHookPtr p2)\<rparr>)
     = Inl (Errorf ''WebhookUnmarshaler.Webhook does not implement a concrete Webhook type'')
   \<and> fst (MarshalJSON json_Marshal \<lparr>Type = t, Webhook = Some (DeployHookPtr p3)\<rparr>)
     = Inl (Errorf ''WebhookUnmarshaler.Webhook does not implement a concrete Webhook type'')
   \<and> fst (MarshalJSON json_Marshal \<lparr>Type = t, Webhook = Some (TagHookPtr p4)\<rparr>)
     = Inl (Errorf ''WebhookUnmarshaler.Webhook does not implement a concrete Webhook type'')
   \<and> fst (MarshalJSON json_Marshal \<lparr>Type = t, Webhook = Some (IssueHookPtr p5)\<rparr>)
     = Inl (Errorf ''WebhookUnmarshaler.Webhook does not implement a concrete Webhook type'')
   \<and> fst (MarshalJSON json_Marshal \<lparr>Type = t, Webhook = Some (IssueCommentHookPtr p6)\<rparr>)
     = Inl (Errorf ''WebhookUnmarshaler.Webhook does not implement a concrete Webhook type'')
   \<and> fst (MarshalJSON json_Marshal \<lparr>Type = t, Webhook = Some (PullRequestHookPtr p7)\<rparr>)
     = Inl (Errorf ''WebhookUnmarshaler.Webhook does not implement a concrete Webhook type'')
   \<and> fst (MarshalJSON json_Marshal \<lparr>Type = t, Webhook = Some (PullRequestCommentHookPtr p8)\<rparr>)
     = Inl (Errorf ''WebhookUnmarshaler.Webhook does not implement a concrete Webhook type'')
   \<and> fst (MarshalJSON json_Marshal \<lparr>Type = t, Webhook = Some (ReviewCommentHookPtr p9)\<rparr>)
     = Inl (Errorf ''WebhookUnmarshaler.Webhook does not implement a concrete Webhook type'')"
  by (simp add: MarshalJSON_unsupported)

text \<open>
  C8. The claim is that the bytes returned for an event of the nine types are an object with
  the members \<open>type\<close> and \<open>webhook\<close>. For a \<open>Webhook\<close> holding a pointer to a \<open>TagHook\<close>
  the code returns no bytes at all.
\<close>

theorem MarshalJSON_no_envelope:
  "fst (MarshalJSON json_Marshal
         \<lparr>Type = ''tagHook'', Webhook = Some (TagHookPtr (Some h))\<rparr>) \<noteq> Inr bs"
  by (simp add: MarshalJSON_unsupported)

subsection \<open>Decoding\<close>

text \<open>
  C5. The claim is that \<open>UnmarshalJSON\<close> never crashes and reports every failure as a
  returned error. Whenever the first \<open>json.Unmarshal\<close> accepts the input, the code panics
  with a nil pointer dereference at line 262; the receiver is as it was.
\<close>

theorem UnmarshalJSON_panics_when_parsed:
  "ju b = Inr objMap \<Longrightarrow> UnmarshalJSON ju jw jh b wu = (Panicked NilPointerDereference, wu)"
  by (simp add: UnmarshalJSON_outcome)

theorem UnmarshalJSON_panics_when_parsed_witness:
  "(\<lambda>b::bytes. Inr Map.empty :: error + (string \<rightharpoonup> bytes option)) ''{}'' = Inr Map.empty
   \<and> UnmarshalJSON (\<lambda>b. Inr Map.empty) (\<lambda>raw. Inr Map.empty) (\<lambda>raw h. None) ''{}''
        (\<lparr>Type = '''', Webhook = None\<rparr>
          :: (unit, unit, unit, unit, unit, unit, unit, unit, unit, unit, unit) WebhookUnmarshaler)
     = (Panicked NilPointerDereference, \<lparr>Type = '''', Webhook = None\<rparr>)"
  using UnmarshalJSON_panics_when_parsed
    [of "\<lambda>b. Inr Map.empty" "''{}''" Map.empty "\<lambda>raw. Inr Map.empty" "\<lambda>raw h. None"
        "\<lparr>Type = '''', Webhook = None\<rparr>
          :: (unit, unit, unit, unit, unit, unit, unit, unit, unit, unit, unit) WebhookUnmarshaler"]
  by simp

text \<open>
  C2. The claim is that the token \<open>pullRequestCommentHook\<close> yields a
  \<open>PullRequestCommentHook\<close>. On the envelope with that token the code panics at line 262.
  The branch of lines 330 to 337, entered with that token, a non-nil \<open>rawMessage\<close> and a
  \<open>json.Unmarshal\<close> that returns no error, stores a nil \<open>*IssueHook\<close>.
\<close>

theorem UnmarshalJSON_pullRequestCommentHook:
  "UnmarshalJSON
      (\<lambda>b. Inr [''type'' \<mapsto> Some ''\"pullRequestCommentHook\"'', ''webhook'' \<mapsto> Some ''{}''])
      jw jh ''{\"type\":\"pullRequestCommentHook\",\"webhook\":{}}'' wu
     = (Panicked NilPointerDereference, wu)
   \<and> UnmarshalJSON_chain (\<lambda>raw h. None) [''type'' \<mapsto> ''pullRequestCommentHook'']
        (Some ''{}'') wu
     = (Returned None, wu\<lparr>Webhook := Some (IssueHookPtr None)\<rparr>)"
  by (simp add: UnmarshalJSON_outcome UnmarshalJSON_chain_def unmarshal_into_def index_map_def)

text \<open>
  C3. The claim is that an unknown token is rejected with an error. On the envelope
  \<^verbatim>\<open>{"type": "madeUpHook", "webhook": {}}\<close> the code panics at line 262. The chain of
  lines 267 to 350 has no final \<open>else\<close>: entered with the token \<open>madeUpHook\<close> it returns
  the nil error and leaves the receiver as it was.
\<close>

theorem UnmarshalJSON_madeUpHook:
  "UnmarshalJSON
      (\<lambda>b. Inr [''type'' \<mapsto> Some ''\"madeUpHook\"'', ''webhook'' \<mapsto> Some ''{}''])
      jw jh ''{\"type\": \"madeUpHook\", \"webhook\": {}}'' wu
     = (Panicked NilPointerDereference, wu)
   \<and> UnmarshalJSON_chain jh [''type'' \<mapsto> ''madeUpHook''] rawMessage wu = (Returned None, wu)"
  by (simp add: UnmarshalJSON_outcome UnmarshalJSON_chain_def index_map_def)

text \<open>
  C6. The claim is that a payload that does not fit the type selected by a known token is
  reported as an error wrapping the decoder's error. On the envelope
  \<^verbatim>\<open>{"type":"pushHook","webhook":[1]}\<close> the code panics at line 262 and returns no
  error.
\<close>

theorem UnmarshalJSON_pushHook_bad_payload:
  "fst (UnmarshalJSON
      (\<lambda>b. Inr [''type'' \<mapsto> Some ''\"pushHook\"'', ''webhook'' \<mapsto> Some ''[1]''])
      jw jh ''{\"type\":\"pushHook\",\"webhook\":[1]}'' wu)
     = Panicked NilPointerDereference"
  by (simp add: UnmarshalJSON_outcome)

subsection \<open>The round trip\<close>

text \<open>
  C1. The claim is that decoding the encoding of an event gives the event back. For the
  \<open>PushHook\<close> with \<open>Ref = refs/heads/main\<close>, \<open>Before = aaa\<close>, \<open>After = bbb\<close> and the
  commits \<open>c1\<close>, \<open>c2\<close> (every other field zero), \<open>MarshalJSON\<close> returns the error of
  line 249, so there are no bytes to decode; and \<open>UnmarshalJSON\<close> returns the nil error on
  no input at all.
\<close>

theorem roundtrip_PushHook_not_encoded:
  "fst (MarshalJSON json_Marshal
         \<lparr>Type = ''pushHook'',
          Webhook = Some (PushHookPtr (Some
            \<lparr>PushHook.Ref = ''refs/heads/main'', BaseRef = '''', PushHook.Repo = (),
             Before = ''aaa'', After = ''bbb'', Created = False, Deleted = False,
             Forced = False, Compare = '''',
             Commits = [\<lparr>ID = ''c1'', Message = '''', Added = [], Removed = [], Modified = []\<rparr>,
                        \<lparr>ID = ''c2'', Message = '''', Added = [], Removed = [], Modified = []\<rparr>],
             Commit = (), PushHook.Sender = (), PushHook.GUID = ''''\<rparr>))\<rparr>)
     = Inl (Errorf ''WebhookUnmarshaler.Webhook does not implement a concrete Webhook type'')
   \<and> fst (UnmarshalJSON ju jw jh b wu) \<noteq> Returned None"
  by (simp add: MarshalJSON_unsupported UnmarshalJSON_outcome split: sum.split)

end
